theory Spec2Isabelle
  imports Main
begin

section \<open>The documentation search index of the hebrides crate\<close>

text \<open>
  The file \<^verbatim>\<open>target/doc/search-index.js\<close> binds \<^verbatim>\<open>searchIndex\<close> to the value of
  \<^verbatim>\<open>JSON.parse\<close> on one string literal (a backslash at the end of a line continues the
  literal). The value is modelled as it is parsed: numbers, strings, arrays, and objects as
  association lists in the order of the text. No key occurs twice in an object of this file,
  so looking a key up by its first occurrence agrees with the parser.

  Strings are byte lists: the three characters of the docstrings that lie outside ASCII
  (the ellipsis and the two typographic quotes) are written as their UTF-8 bytes.
\<close>

datatype json =
    JNum int
  | JStr string
  | JArr "json list"
  | JObj "(string \<times> json) list"

subsection \<open>The columns of the crate entry\<close>

definition hebrides_doc :: json where
  "hebrides_doc = JStr ''Implementations for real and complex numbers.''"

definition hebrides_t :: json where
  "hebrides_t = JArr [
   JNum 3, JNum 3, JNum 3, JNum 3, JNum 18, JNum 18, JNum 18, JNum 3, JNum 18, JNum 18, JNum 11,
   JNum 11, JNum 11, JNum 11, JNum 11, JNum 11, JNum 11, JNum 11, JNum 11, JNum 11, JNum 11,
   JNum 11, JNum 11, JNum 11, JNum 11, JNum 11, JNum 11, JNum 11, JNum 11, JNum 11, JNum 11,
   JNum 11, JNum 11, JNum 11, JNum 11, JNum 11, JNum 11, JNum 11, JNum 11, JNum 11, JNum 11,
   JNum 11, JNum 11, JNum 11, JNum 11, JNum 11, JNum 11, JNum 11, JNum 11, JNum 11, JNum 11,
   JNum 11, JNum 11, JNum 11, JNum 11, JNum 11, JNum 11, JNum 11, JNum 11, JNum 11, JNum 11,
   JNum 11, JNum 11, JNum 11, JNum 11, JNum 11, JNum 11, JNum 11, JNum 11, JNum 11, JNum 11,
   JNum 11, JNum 11, JNum 11, JNum 11, JNum 11, JNum 11, JNum 11, JNum 11, JNum 11, JNum 11,
   JNum 11, JNum 11, JNum 11, JNum 11, JNum 11, JNum 11, JNum 11, JNum 11, JNum 11, JNum 11,
   JNum 11, JNum 11, JNum 11, JNum 11, JNum 11, JNum 11, JNum 11, JNum 11, JNum 11, JNum 11,
   JNum 11, JNum 11, JNum 11, JNum 11, JNum 11, JNum 11, JNum 11, JNum 11, JNum 11, JNum 11,
   JNum 11, JNum 11, JNum 11, JNum 11, JNum 11, JNum 11, JNum 11, JNum 11, JNum 11, JNum 11,
   JNum 11, JNum 11, JNum 11, JNum 11, JNum 11, JNum 11, JNum 11, JNum 11, JNum 11, JNum 11,
   JNum 11, JNum 11, JNum 11, JNum 11, JNum 11, JNum 11, JNum 11, JNum 11, JNum 11, JNum 11,
   JNum 11, JNum 11, JNum 11, JNum 11, JNum 11, JNum 11, JNum 11, JNum 11, JNum 11, JNum 11,
   JNum 11]"

definition hebrides_n :: json where
  "hebrides_n = JArr [
   JStr ''Angle'', JStr ''Complex'', JStr ''ConversionError'', JStr ''DomainError'', JStr ''I'',
   JStr ''ONE'', JStr ''ONE'', JStr ''Real'', JStr ''ZERO'', JStr ''ZERO'', JStr ''abs'',
   JStr ''abs'', JStr ''add'', JStr ''add'', JStr ''arccos'', JStr ''arccos'', JStr ''arccosh'',
   JStr ''arccosh'', JStr ''arcsin'', JStr ''arcsin'', JStr ''arcsinh'', JStr ''arcsinh'',
   JStr ''arctan'', JStr ''arctan'', JStr ''arctanh'', JStr ''arctanh'', JStr ''azimuthal'',
   JStr ''borrow'', JStr ''borrow'', JStr ''borrow'', JStr ''borrow'', JStr ''borrow'',
   JStr ''borrow_mut'', JStr ''borrow_mut'', JStr ''borrow_mut'', JStr ''borrow_mut'',
   JStr ''borrow_mut'', JStr ''ceil'', JStr ''clone'', JStr ''clone'', JStr ''clone'',
   JStr ''clone'', JStr ''clone_into'', JStr ''clone_into'', JStr ''clone_into'',
   JStr ''clone_into'', JStr ''cmp'', JStr ''cos'', JStr ''cos'', JStr ''cosh'', JStr ''cosh'',
   JStr ''div'', JStr ''div'', JStr ''eq'', JStr ''eq'', JStr ''exp'', JStr ''exp'',
   JStr ''floor'', JStr ''fmt'', JStr ''fmt'', JStr ''fmt'', JStr ''fmt'', JStr ''fmt'',
   JStr ''fmt'', JStr ''fmt'', JStr ''fmt'', JStr ''from'', JStr ''from'', JStr ''from'',
   JStr ''from'', JStr ''from'', JStr ''from'', JStr ''from'', JStr ''from'', JStr ''from'',
   JStr ''from'', JStr ''from'', JStr ''from'', JStr ''from'', JStr ''from'', JStr ''from'',
   JStr ''from_degrees'', JStr ''from_radians'', JStr ''into'', JStr ''into'', JStr ''into'',
   JStr ''into'', JStr ''into'', JStr ''into_degrees'', JStr ''into_radians'',
   JStr ''is_imaginary'', JStr ''is_real'', JStr ''ln'', JStr ''ln'', JStr ''log'', JStr ''logf'',
   JStr ''logi'', JStr ''mul'', JStr ''mul'', JStr ''neg'', JStr ''neg'', JStr ''negative'',
   JStr ''new'', JStr ''new'', JStr ''norm'', JStr ''partial_cmp'', JStr ''positive'',
   JStr ''pow'', JStr ''powf'', JStr ''powi'', JStr ''sin'', JStr ''sin'', JStr ''sinh'',
   JStr ''sinh'', JStr ''sqrt'', JStr ''sqrt'', JStr ''squared'', JStr ''squared'', JStr ''sub'',
   JStr ''sub'', JStr ''tan'', JStr ''tan'', JStr ''tanh'', JStr ''tanh'', JStr ''to_complex'',
   JStr ''to_degrees'', JStr ''to_owned'', JStr ''to_owned'', JStr ''to_owned'',
   JStr ''to_owned'', JStr ''to_radians'', JStr ''to_string'', JStr ''to_string'',
   JStr ''to_string'', JStr ''to_string'', JStr ''try_from'', JStr ''try_from'',
   JStr ''try_from'', JStr ''try_from'', JStr ''try_from'', JStr ''try_from'', JStr ''try_into'',
   JStr ''try_into'', JStr ''try_into'', JStr ''try_into'', JStr ''try_into'', JStr ''type_id'',
   JStr ''type_id'', JStr ''type_id'', JStr ''type_id'', JStr ''type_id'', JStr ''value'']"

definition hebrides_q :: json where
  "hebrides_q = JArr [
   JStr ''hebrides'', JStr '''', JStr '''', JStr '''', JStr '''', JStr '''', JStr '''', JStr '''',
   JStr '''', JStr '''', JStr '''', JStr '''', JStr '''', JStr '''', JStr '''', JStr '''',
   JStr '''', JStr '''', JStr '''', JStr '''', JStr '''', JStr '''', JStr '''', JStr '''',
   JStr '''', JStr '''', JStr '''', JStr '''', JStr '''', JStr '''', JStr '''', JStr '''',
   JStr '''', JStr '''', JStr '''', JStr '''', JStr '''', JStr '''', JStr '''', JStr '''',
   JStr '''', JStr '''', JStr '''', JStr '''', JStr '''', JStr '''', JStr '''', JStr '''',
   JStr '''', JStr '''', JStr '''', JStr '''', JStr '''', JStr '''', JStr '''', JStr '''',
   JStr '''', JStr '''', JStr '''', JStr '''', JStr '''', JStr '''', JStr '''', JStr '''',
   JStr '''', JStr '''', JStr '''', JStr '''', JStr '''', JStr '''', JStr '''', JStr '''',
   JStr '''', JStr '''', JStr '''', JStr '''', JStr '''', JStr '''', JStr '''', JStr '''',
   JStr '''', JStr '''', JStr '''', JStr '''', JStr '''', JStr '''', JStr '''', JStr '''',
   JStr '''', JStr '''', JStr '''', JStr '''', JStr '''', JStr '''', JStr '''', JStr '''',
   JStr '''', JStr '''', JStr '''', JStr '''', JStr '''', JStr '''', JStr '''', JStr '''',
   JStr '''', JStr '''', JStr '''', JStr '''', JStr '''', JStr '''', JStr '''', JStr '''',
   JStr '''', JStr '''', JStr '''', JStr '''', JStr '''', JStr '''', JStr '''', JStr '''',
   JStr '''', JStr '''', JStr '''', JStr '''', JStr '''', JStr '''', JStr '''', JStr '''',
   JStr '''', JStr '''', JStr '''', JStr '''', JStr '''', JStr '''', JStr '''', JStr '''',
   JStr '''', JStr '''', JStr '''', JStr '''', JStr '''', JStr '''', JStr '''', JStr '''',
   JStr '''', JStr '''', JStr '''', JStr '''', JStr '''', JStr '''', JStr '''', JStr '''']"

definition hebrides_d :: json where
  "hebrides_d = JArr [
   JStr ''Representation of angular values.'', JStr ''Representation of complex numbers'',
   JStr ''Error type for errors involving conversion between values.'',
   JStr ''Error type for errors involving domain restrictions.'',
   JStr (''shortcut for encoding the imaginary unit as '' @ [CHR 0xE2, CHR 0x80, CHR 0xA6]),
   JStr ''shortcut for describing Real::new(0.0)'',
   JStr (''shortcut for encoding 1.0 as Complex::new(Real::ONE, '' @ [CHR 0xE2, CHR 0x80, CHR 0xA6]),
   JStr ''Representation of real numbers.'', JStr ''shortcut for describing Real::new(1.0)'',
   JStr (''shortcut for encoding 0.0 as Complex::new(Real::ZERO, '' @ [CHR 0xE2, CHR 0x80, CHR 0xA6]),
   JStr ''Absolute value of <code>self</code>.'', JStr ''Absolute value (aka. complex norm).'',
   JStr '''', JStr '''', JStr ''Arccosine.'', JStr ''Complex arccos.'',
   JStr ''Hyperbolic arccosine.'', JStr ''Complex inverse hyperbolic cosine.'', JStr ''Arcsine.'',
   JStr ''Complex arcsin.'', JStr ''Hyperbolic arcsine.'',
   JStr ''Complex inverse hyperbolic sine.'', JStr ''Arctangent.'', JStr ''Complex arctan.'',
   JStr ''Hyperbolic arctangent.'', JStr ''Complex inverse hyperbolic tangent.'',
   JStr ''Azimuthal angle.'', JStr '''', JStr '''', JStr '''', JStr '''', JStr '''', JStr '''',
   JStr '''', JStr '''', JStr '''', JStr '''', JStr ''Returns the ceiling of <code>self</code>.'',
   JStr '''', JStr '''', JStr '''', JStr '''', JStr '''', JStr '''', JStr '''', JStr '''',
   JStr '''', JStr ''Cosine.'', JStr ''Complex cosine.'', JStr ''Hyperbolic cosine.'',
   JStr ''Complex hyperbolic cosine.'', JStr '''', JStr '''', JStr '''', JStr '''',
   JStr ''e to the power of <code>self</code>.'', JStr ''Complex exponentiation.'',
   JStr ''Returns the floor of <code>self</code>.'', JStr '''', JStr '''', JStr '''', JStr '''',
   JStr '''', JStr '''', JStr '''', JStr '''', JStr ''Returns the argument unchanged.'',
   JStr ''Returns the argument unchanged.'', JStr ''Returns the argument unchanged.'', JStr '''',
   JStr '''', JStr '''', JStr '''', JStr '''', JStr '''', JStr '''', JStr '''', JStr '''',
   JStr '''', JStr ''Returns the argument unchanged.'', JStr ''Returns the argument unchanged.'',
   JStr ''Constructs an Angle from a given value in degrees'',
   JStr ''Constructs an Angle from a given value in radians'',
   JStr ''Calls <code>U::from(self)</code>.'', JStr ''Calls <code>U::from(self)</code>.'',
   JStr ''Calls <code>U::from(self)</code>.'', JStr ''Calls <code>U::from(self)</code>.'',
   JStr ''Calls <code>U::from(self)</code>.'',
   JStr ''Converts a <code>value</code> in radians into a value in degrees'',
   JStr ''Converts a <code>value</code> in degrees into a value in radians'',
   JStr ''Returns whether or not <code>self</code> is imaginary.'',
   JStr ''Returns whether or not <code>self</code> is real.'', JStr ''Natural logarithm.'',
   JStr ''Complex natural logarithm.'',
   JStr (''Logarithm with base '' @ [CHR 0xE2, CHR 0x80, CHR 0x98] @ ''base'' @ [CHR 0xE2, CHR 0x80, CHR 0x99] @ ''.''),
   JStr (''Logarithm with base '' @ [CHR 0xE2, CHR 0x80, CHR 0x98] @ ''base'' @ [CHR 0xE2, CHR 0x80, CHR 0x99] @ ''.''),
   JStr (''Logarithm with base '' @ [CHR 0xE2, CHR 0x80, CHR 0x98] @ ''base'' @ [CHR 0xE2, CHR 0x80, CHR 0x99] @ ''.''),
   JStr '''', JStr '''', JStr '''', JStr '''',
   JStr ''Whether or not <code>self</code> is negative.'',
   JStr ''Constructs a Real from an f64.'', JStr ''Constructs a Complex from two f64 values'',
   JStr ''Complex norm.'', JStr '''', JStr ''Whether or not <code>self</code> is positive.'',
   JStr ''<code>self</code> to the power of <code>power</code>.'',
   JStr ''<code>self</code> to the power of <code>power</code>.'',
   JStr ''<code>self</code> to the power of <code>power</code>.'', JStr ''Sine.'',
   JStr ''Complex sine.'', JStr ''Hyperbolic sine.'', JStr ''Complex hyperbolic sine.'',
   JStr ''Returns the square root of <code>self</code>.'',
   JStr ''Returns the square root of <code>self</code>.'',
   JStr ''Returns the square of <code>self</code>.'', JStr ''Returns <code>self</code> squared.'',
   JStr '''', JStr '''', JStr ''Tangent.'', JStr ''Complex tangent.'',
   JStr ''Hyperbolic tangent.'', JStr ''Complex hyperbolic tangent.'',
   JStr ''Constructs a <code>Complex</code> from <code>self</code>.'',
   JStr ''Consumes <code>self</code>, returning a value in degrees.'', JStr '''', JStr '''',
   JStr '''', JStr '''', JStr ''Consumes <code>self</code>, returning a value in radians.'',
   JStr '''', JStr '''', JStr '''', JStr '''', JStr '''', JStr '''', JStr '''', JStr '''',
   JStr '''', JStr '''', JStr '''', JStr '''', JStr '''', JStr '''', JStr '''', JStr '''',
   JStr '''', JStr '''', JStr '''', JStr '''',
   JStr ''Returns a copy of <code>self</code> as an f64.'']"

definition hebrides_i :: json where
  "hebrides_i = JArr [
   JNum 0, JNum 0, JNum 0, JNum 0, JNum 2, JNum 1, JNum 2, JNum 0, JNum 1, JNum 2, JNum 1, JNum 2,
   JNum 1, JNum 2, JNum 1, JNum 2, JNum 1, JNum 2, JNum 1, JNum 2, JNum 1, JNum 2, JNum 1, JNum 2,
   JNum 1, JNum 2, JNum 2, JNum 3, JNum 4, JNum 6, JNum 1, JNum 2, JNum 3, JNum 4, JNum 6, JNum 1,
   JNum 2, JNum 1, JNum 4, JNum 6, JNum 1, JNum 2, JNum 4, JNum 6, JNum 1, JNum 2, JNum 1, JNum 1,
   JNum 2, JNum 1, JNum 2, JNum 1, JNum 2, JNum 1, JNum 2, JNum 1, JNum 2, JNum 1, JNum 4, JNum 4,
   JNum 6, JNum 6, JNum 1, JNum 1, JNum 2, JNum 2, JNum 3, JNum 4, JNum 6, JNum 1, JNum 1, JNum 1,
   JNum 1, JNum 1, JNum 1, JNum 1, JNum 1, JNum 1, JNum 1, JNum 1, JNum 2, JNum 3, JNum 3, JNum 3,
   JNum 4, JNum 6, JNum 1, JNum 2, JNum 3, JNum 3, JNum 2, JNum 2, JNum 1, JNum 2, JNum 1, JNum 1,
   JNum 1, JNum 1, JNum 2, JNum 1, JNum 2, JNum 1, JNum 1, JNum 2, JNum 2, JNum 1, JNum 1, JNum 1,
   JNum 1, JNum 1, JNum 1, JNum 2, JNum 1, JNum 2, JNum 1, JNum 2, JNum 1, JNum 2, JNum 1, JNum 2,
   JNum 1, JNum 2, JNum 1, JNum 2, JNum 1, JNum 3, JNum 4, JNum 6, JNum 1, JNum 2, JNum 3, JNum 4,
   JNum 6, JNum 1, JNum 2, JNum 3, JNum 4, JNum 6, JNum 1, JNum 1, JNum 2, JNum 3, JNum 4, JNum 6,
   JNum 1, JNum 2, JNum 3, JNum 4, JNum 6, JNum 1, JNum 2, JNum 1]"

definition hebrides_f :: json where
  "hebrides_f = JArr [
   JNum 0, JNum 0, JNum 0, JNum 0, JNum 0, JNum 0, JNum 0, JNum 0, JNum 0, JNum 0,
   JArr [JNum 1, JNum 1], JArr [JNum 2, JNum 2], JArr [JArr [JNum 1, JNum 1], JNum 1],
   JArr [JArr [JNum 2, JNum 2], JNum 2],
   JArr [JNum 1, JArr [JArr [JNum 5, JArr [JNum 3, JNum 4]]]], JArr [JNum 2, JNum 2],
   JArr [JNum 1, JArr [JArr [JNum 5, JArr [JNum 3, JNum 4]]]], JArr [JNum 2, JNum 2],
   JArr [JNum 1, JArr [JArr [JNum 5, JArr [JNum 3, JNum 4]]]], JArr [JNum 2, JNum 2],
   JArr [JNum 1, JNum 3], JArr [JNum 2, JNum 2], JArr [JNum 1, JNum 3], JArr [JNum 2, JNum 2],
   JArr [JNum 1, JArr [JArr [JNum 5, JArr [JNum 3, JNum 4]]]], JArr [JNum 2, JNum 2],
   JArr [JNum 2, JNum 3], JArr [JArr []], JArr [JArr []], JArr [JArr []], JArr [JArr []],
   JArr [JArr []], JArr [JArr []], JArr [JArr []], JArr [JArr []], JArr [JArr []], JArr [JArr []],
   JArr [JNum 1, JNum 1], JArr [JNum 4, JNum 4], JArr [JNum 6, JNum 6], JArr [JNum 1, JNum 1],
   JArr [JNum 2, JNum 2], JArr [JArr []], JArr [JArr []], JArr [JArr []], JArr [JArr []],
   JArr [JArr [JNum 1, JNum 1], JNum 7], JArr [JNum 1, JNum 1], JArr [JNum 2, JNum 2],
   JArr [JNum 1, JNum 1], JArr [JNum 2, JNum 2], JArr [JArr [JNum 1, JNum 1], JNum 1],
   JArr [JArr [JNum 2, JNum 2], JNum 2], JArr [JArr [JNum 1, JNum 1], JNum 8],
   JArr [JArr [JNum 2, JNum 2], JNum 8], JArr [JNum 1, JNum 1], JArr [JNum 2, JNum 2],
   JArr [JNum 1, JNum 1], JArr [JArr [JNum 4, JNum 9], JNum 10],
   JArr [JArr [JNum 4, JNum 9], JNum 10], JArr [JArr [JNum 6, JNum 9], JNum 10],
   JArr [JArr [JNum 6, JNum 9], JNum 10], JArr [JArr [JNum 1, JNum 9], JNum 10],
   JArr [JArr [JNum 1, JNum 9], JNum 10], JArr [JArr [JNum 2, JNum 9], JNum 10],
   JArr [JArr [JNum 2, JNum 9], JNum 10], JArr [JArr []], JArr [JArr []], JArr [JArr []],
   JArr [JNum 11, JNum 1], JArr [JNum 12, JNum 1], JArr [JNum 13, JNum 1], JArr [JNum 14, JNum 1],
   JArr [JNum 15, JNum 1], JArr [JNum 16, JNum 1], JArr [JNum 17, JNum 1], JArr [JNum 18, JNum 1],
   JArr [JNum 19, JNum 1], JArr [JNum 20, JNum 1], JArr [JArr []], JArr [JArr []],
   JArr [JNum 18, JNum 3], JArr [JNum 18, JNum 3], JArr [JArr []], JArr [JArr []], JArr [JArr []],
   JArr [JArr []], JArr [JArr []], JArr [JNum 18, JNum 18], JArr [JNum 18, JNum 18],
   JArr [JNum 2, JNum 8], JArr [JNum 2, JNum 8],
   JArr [JNum 1, JArr [JArr [JNum 5, JArr [JNum 1, JNum 4]]]], JArr [JNum 2, JNum 2],
   JArr [JArr [JNum 1, JNum 1], JArr [JArr [JNum 5, JArr [JNum 1, JNum 4]]]],
   JArr [JArr [JNum 1, JNum 18], JArr [JArr [JNum 5, JArr [JNum 1, JNum 4]]]],
   JArr [JArr [JNum 1, JNum 12], JArr [JArr [JNum 5, JArr [JNum 1, JNum 4]]]],
   JArr [JArr [JNum 1, JNum 1], JNum 1], JArr [JArr [JNum 2, JNum 2], JNum 2],
   JArr [JNum 1, JNum 1], JArr [JNum 2, JNum 2], JArr [JNum 1, JNum 8], JArr [JNum 18, JNum 1],
   JArr [JArr [JNum 18, JNum 18], JNum 2], JArr [JNum 2, JNum 1],
   JArr [JArr [JNum 1, JNum 1], JArr [JArr [JNum 21, JArr [JNum 7]]]], JArr [JNum 1, JNum 8],
   JArr [JArr [JNum 1, JNum 1], JNum 1],
   JArr [JArr [JNum 1, JNum 18], JArr [JArr [JNum 5, JArr [JNum 1, JNum 4]]]],
   JArr [JArr [JNum 1, JNum 12], JNum 1], JArr [JNum 1, JNum 1], JArr [JNum 2, JNum 2],
   JArr [JNum 1, JNum 1], JArr [JNum 2, JNum 2],
   JArr [JNum 1, JArr [JArr [JNum 5, JArr [JNum 1, JNum 4]]]], JArr [JNum 2, JNum 2],
   JArr [JNum 1, JNum 1], JArr [JNum 2, JNum 2], JArr [JArr [JNum 1, JNum 1], JNum 1],
   JArr [JArr [JNum 2, JNum 2], JNum 2], JArr [JNum 1, JNum 1], JArr [JNum 2, JNum 2],
   JArr [JNum 1, JNum 1], JArr [JNum 2, JNum 2], JArr [JNum 1, JNum 2], JArr [JNum 3, JNum 18],
   JArr [JArr []], JArr [JArr []], JArr [JArr []], JArr [JArr []], JArr [JNum 3, JNum 18],
   JArr [JArr [], JNum 22], JArr [JArr [], JNum 22], JArr [JArr [], JNum 22],
   JArr [JArr [], JNum 22], JArr [JArr [], JNum 5], JArr [JArr [], JNum 5],
   JArr [JArr [], JNum 5], JArr [JNum 2, JArr [JArr [JNum 5, JArr [JNum 1, JNum 6]]]],
   JArr [JArr [], JNum 5], JArr [JArr [], JNum 5], JArr [JArr [], JNum 5], JArr [JArr [], JNum 5],
   JArr [JArr [], JNum 5], JArr [JArr [], JNum 5], JArr [JArr [], JNum 5],
   JArr [JArr [], JNum 23], JArr [JArr [], JNum 23], JArr [JArr [], JNum 23],
   JArr [JArr [], JNum 23], JArr [JArr [], JNum 23], JArr [JNum 1, JNum 18]]"

definition hebrides_p :: json where
  "hebrides_p = JArr [
   JArr [JNum 3, JStr ''Real''], JArr [JNum 3, JStr ''Complex''], JArr [JNum 3, JStr ''Angle''],
   JArr [JNum 3, JStr ''DomainError''], JArr [JNum 4, JStr ''Result''],
   JArr [JNum 3, JStr ''ConversionError''], JArr [JNum 4, JStr ''Ordering''],
   JArr [JNum 15, JStr ''bool''], JArr [JNum 3, JStr ''Formatter''],
   JArr [JNum 6, JStr ''Result''], JArr [JNum 15, JStr ''i32''], JArr [JNum 15, JStr ''i64''],
   JArr [JNum 15, JStr ''u16''], JArr [JNum 15, JStr ''f32''], JArr [JNum 15, JStr ''u64''],
   JArr [JNum 15, JStr ''u8''], JArr [JNum 15, JStr ''i8''], JArr [JNum 15, JStr ''f64''],
   JArr [JNum 15, JStr ''u32''], JArr [JNum 15, JStr ''i16''], JArr [JNum 4, JStr ''Option''],
   JArr [JNum 3, JStr ''String''], JArr [JNum 3, JStr ''TypeId'']]"

definition searchIndex :: json where
  "searchIndex = JObj [
     (''hebrides'', JObj [
        (''doc'', hebrides_doc),
        (''t'', hebrides_t),
        (''n'', hebrides_n),
        (''q'', hebrides_q),
        (''d'', hebrides_d),
        (''i'', hebrides_i),
        (''f'', hebrides_f),
        (''p'', hebrides_p)])]"

subsection \<open>Reading the parsed value\<close>

fun keys :: "json \<Rightarrow> string list" where
  "keys (JObj kvs) = map fst kvs"
| "keys _ = []"

fun field :: "string \<Rightarrow> json \<Rightarrow> json option" where
  "field k (JObj kvs) = map_of kvs k"
| "field k _ = None"

fun elems :: "json option \<Rightarrow> json list" where
  "elems (Some (JArr xs)) = xs"
| "elems _ = []"

fun is_arr :: "json option \<Rightarrow> bool" where
  "is_arr (Some (JArr xs)) = True"
| "is_arr _ = False"

fun is_num :: "json \<Rightarrow> bool" where
  "is_num (JNum k) = True"
| "is_num _ = False"

fun is_str :: "json \<Rightarrow> bool" where
  "is_str (JStr s) = True"
| "is_str _ = False"

fun is_path :: "json \<Rightarrow> bool" where
  "is_path (JArr [JNum k, JStr s]) = True"
| "is_path _ = False"

definition crate :: "json option" where
  "crate = field ''hebrides'' searchIndex"

definition column :: "string \<Rightarrow> json list" where
  "column k = (case crate of Some c \<Rightarrow> elems (field k c) | None \<Rightarrow> [])"

subsection \<open>The type table and the signatures\<close>

text \<open>
  The table \<^verbatim>\<open>p\<close> lists pairs of an item kind and a type name. Everywhere else a type
  is named by its 1-based position in \<^verbatim>\<open>p\<close>. In the column \<^verbatim>\<open>i\<close> the number 0
  stands for an item without parent type. An entry of \<^verbatim>\<open>f\<close> is the number 0 (no
  signature recorded) or an array of the inputs followed, when there is one, by the output;
  inputs and output are each one bare type index or an array of types, and a type is a bare
  index or an index paired with the array of its generic arguments.
\<close>

fun path_name :: "json \<Rightarrow> string option" where
  "path_name (JArr [JNum k, JStr s]) = Some s"
| "path_name _ = None"

definition type_name :: "int \<Rightarrow> string option" where
  "type_name k =
     (if 1 \<le> k \<and> nat k \<le> length (column ''p'')
      then path_name (column ''p'' ! (nat k - 1)) else None)"

datatype ty = Ty string "ty list"

fun those_tys :: "ty option list \<Rightarrow> ty list option" where
  "those_tys [] = Some []"
| "those_tys (None # xs) = None"
| "those_tys (Some t # xs) = (case those_tys xs of None \<Rightarrow> None | Some ts \<Rightarrow> Some (t # ts))"

fun decode_ty :: "json \<Rightarrow> ty option" where
  "decode_ty (JNum k) = (case type_name k of None \<Rightarrow> None | Some s \<Rightarrow> Some (Ty s []))"
| "decode_ty (JArr xs) =
     (case xs of
        [JNum k, JArr gs] \<Rightarrow>
          (case type_name k of
             None \<Rightarrow> None
           | Some s \<Rightarrow>
               (case those_tys (map decode_ty gs) of
                  None \<Rightarrow> None
                | Some ts \<Rightarrow> Some (Ty s ts)))
      | _ \<Rightarrow> None)"
| "decode_ty _ = None"

fun decode_tys :: "json \<Rightarrow> ty list option" where
  "decode_tys (JNum k) = (case type_name k of None \<Rightarrow> None | Some s \<Rightarrow> Some [Ty s []])"
| "decode_tys (JArr xs) = those_tys (map decode_ty xs)"
| "decode_tys _ = None"

record signature =
  params :: "ty list"
  returns :: "ty list"

fun decode_sig :: "json \<Rightarrow> signature option" where
  "decode_sig (JArr [a]) =
     (case decode_tys a of
        None \<Rightarrow> None
      | Some ps \<Rightarrow> Some \<lparr>params = ps, returns = []\<rparr>)"
| "decode_sig (JArr [a, b]) =
     (case decode_tys a of
        None \<Rightarrow> None
      | Some ps \<Rightarrow>
          (case decode_tys b of
             None \<Rightarrow> None
           | Some rs \<Rightarrow> Some \<lparr>params = ps, returns = rs\<rparr>))"
| "decode_sig _ = None"

subsection \<open>The items of the index\<close>

text \<open>
  One item per position of the parallel columns: its kind, name, docstring, the name of its
  parent type (none when the entry of \<^verbatim>\<open>i\<close> is 0) and its decoded signature.
\<close>

record item =
  kind :: json
  name :: json
  doc :: json
  parent :: "string option"
  sig :: "signature option"

fun parent_name :: "json \<Rightarrow> string option" where
  "parent_name (JNum k) = type_name k"
| "parent_name _ = None"

definition items :: "item list" where
  "items =
     map (\<lambda>(t, n, d, i, f).
            \<lparr>kind = t, name = n, doc = d, parent = parent_name i, sig = decode_sig f\<rparr>)
       (zip (column ''t'') (zip (column ''n'') (zip (column ''d'')
          (zip (column ''i'') (column ''f'')))))"

subsection \<open>Queries on the items\<close>

abbreviation plain :: "string \<Rightarrow> ty" where
  "plain s \<equiv> Ty s []"

text \<open>The signatures recorded under a parent type for a name, in the order of the index.\<close>

definition sigs_of :: "string \<Rightarrow> string \<Rightarrow> signature option list" where
  "sigs_of P nm = map sig (filter (\<lambda>it. parent it = Some P \<and> name it = JStr nm) items)"

text \<open>
  The error component of a signature: the second argument of a returned
  \<^verbatim>\<open>Result\<close> with two arguments.
\<close>

fun error_component :: "signature option \<Rightarrow> string option" where
  "error_component (Some s) =
     (case returns s of
        [Ty r [ok, Ty e gs]] \<Rightarrow> if r = ''Result'' then Some e else None
      | _ \<Rightarrow> None)"
| "error_component None = None"

definition fallible_with :: "string \<Rightarrow> string \<Rightarrow> string \<Rightarrow> bool" where
  "fallible_with P nm E \<longleftrightarrow>
     sigs_of P nm \<noteq> [] \<and> list_all (\<lambda>s. error_component s = Some E) (sigs_of P nm)"

definition with_error :: "string \<Rightarrow> (string option \<times> json \<times> signature option) list" where
  "with_error E =
     map (\<lambda>it. (parent it, name it, sig it))
       (filter (\<lambda>it. error_component (sig it) = Some E) items)"

text \<open>The names under a parent type whose signature returns exactly the given type.\<close>

definition returning :: "string \<Rightarrow> ty \<Rightarrow> json list" where
  "returning P T =
     map name
       (filter (\<lambda>it. parent it = Some P \<and> map_option returns (sig it) = Some [T]) items)"

text \<open>
  The items, under any parent, that take a type named \<open>A\<close> and return a type named
  \<open>B\<close>, generic arguments included; and the names under a parent type that return a
  type named \<open>B\<close>.
\<close>

fun ty_names :: "ty \<Rightarrow> string list" where
  "ty_names (Ty s gs) = s # concat (map ty_names gs)"

fun takes :: "string \<Rightarrow> signature option \<Rightarrow> bool" where
  "takes A (Some s) = (A \<in> set (concat (map ty_names (params s))))"
| "takes A None = False"

fun gives :: "string \<Rightarrow> signature option \<Rightarrow> bool" where
  "gives B (Some s) = (B \<in> set (concat (map ty_names (returns s))))"
| "gives B None = False"

definition converting :: "string \<Rightarrow> string \<Rightarrow> (string option \<times> json) list" where
  "converting A B =
     map (\<lambda>it. (parent it, name it))
       (filter (\<lambda>it. takes A (sig it) \<and> gives B (sig it)) items)"

definition giving :: "string \<Rightarrow> string \<Rightarrow> json list" where
  "giving P B = map name (filter (\<lambda>it. parent it = Some P \<and> gives B (sig it)) items)"

subsection \<open>Well-formedness of the raw columns\<close>

definition crate_keys :: "string list" where
  "crate_keys = (case crate of Some c \<Rightarrow> keys c | None \<Rightarrow> [])"

definition crate_field :: "string \<Rightarrow> json option" where
  "crate_field k = (case crate of Some c \<Rightarrow> field k c | None \<Rightarrow> None)"

fun is_sig_entry :: "json \<Rightarrow> bool" where
  "is_sig_entry (JNum k) = (k = 0)"
| "is_sig_entry (JArr xs) = True"
| "is_sig_entry _ = False"

definition valid_index :: "int \<Rightarrow> bool" where
  "valid_index k \<longleftrightarrow> 1 \<le> k \<and> k \<le> int (length (column ''p''))"

fun valid_parent :: "json \<Rightarrow> bool" where
  "valid_parent (JNum k) = (k = 0 \<or> valid_index k)"
| "valid_parent _ = False"

fun indices :: "json \<Rightarrow> int list" where
  "indices (JNum k) = [k]"
| "indices (JArr xs) = concat (map indices xs)"
| "indices _ = []"

definition sig_indices :: "json \<Rightarrow> int list" where
  "sig_indices e = (if e = JNum 0 then [] else indices e)"

subsection \<open>The decoded table\<close>

definition rows :: "(string option \<times> json \<times> signature option) list" where
  "rows = map (\<lambda>it. (parent it, name it, sig it)) items"

section \<open>Evaluating the index\<close>

lemma column_t: "column ''t'' = elems (Some hebrides_t)"
  by (simp add: column_def crate_def searchIndex_def)

lemma column_n: "column ''n'' = elems (Some hebrides_n)"
  by (simp add: column_def crate_def searchIndex_def)

lemma column_d: "column ''d'' = elems (Some hebrides_d)"
  by (simp add: column_def crate_def searchIndex_def)

lemma column_i: "column ''i'' = elems (Some hebrides_i)"
  by (simp add: column_def crate_def searchIndex_def)

lemma column_f: "column ''f'' = elems (Some hebrides_f)"
  by (simp add: column_def crate_def searchIndex_def)

lemma column_p: "column ''p'' = elems (Some hebrides_p)"
  by (simp add: column_def crate_def searchIndex_def)

lemma length_p: "length (column ''p'') = 23"
  by (simp add: column_p hebrides_p_def)

lemma type_names:
  "type_name 0 = None"
  "type_name 1 = Some ''Real''"
  "type_name 2 = Some ''Complex''"
  "type_name 3 = Some ''Angle''"
  "type_name 4 = Some ''DomainError''"
  "type_name 5 = Some ''Result''"
  "type_name 6 = Some ''ConversionError''"
  "type_name 7 = Some ''Ordering''"
  "type_name 8 = Some ''bool''"
  "type_name 9 = Some ''Formatter''"
  "type_name 10 = Some ''Result''"
  "type_name 11 = Some ''i32''"
  "type_name 12 = Some ''i64''"
  "type_name 13 = Some ''u16''"
  "type_name 14 = Some ''f32''"
  "type_name 15 = Some ''u64''"
  "type_name 16 = Some ''u8''"
  "type_name 17 = Some ''i8''"
  "type_name 18 = Some ''f64''"
  "type_name 19 = Some ''u32''"
  "type_name 20 = Some ''i16''"
  "type_name 21 = Some ''Option''"
  "type_name 22 = Some ''String''"
  "type_name 23 = Some ''TypeId''"
  by (simp_all add: type_name_def column_p hebrides_p_def)

text \<open>Every item with its parent, name and decoded signature, in the order of the index.\<close>

lemma rows_eq: "rows = [
     (None, JStr ''Angle'', None),
     (None, JStr ''Complex'', None),
     (None, JStr ''ConversionError'', None),
     (None, JStr ''DomainError'', None),
     (Some ''Complex'', JStr ''I'', None),
     (Some ''Real'', JStr ''ONE'', None),
     (Some ''Complex'', JStr ''ONE'', None),
     (None, JStr ''Real'', None),
     (Some ''Real'', JStr ''ZERO'', None),
     (Some ''Complex'', JStr ''ZERO'', None),
     (Some ''Real'', JStr ''abs'',
        Some \<lparr>params = [plain ''Real''], returns = [plain ''Real'']\<rparr>),
     (Some ''Complex'', JStr ''abs'',
        Some \<lparr>params = [plain ''Complex''], returns = [plain ''Complex'']\<rparr>),
     (Some ''Real'', JStr ''add'',
        Some \<lparr>params = [plain ''Real'', plain ''Real''],
                returns = [plain ''Real'']\<rparr>),
     (Some ''Complex'', JStr ''add'',
        Some \<lparr>params = [plain ''Complex'', plain ''Complex''],
                returns = [plain ''Complex'']\<rparr>),
     (Some ''Real'', JStr ''arccos'',
        Some \<lparr>params = [plain ''Real''],
                returns = [Ty ''Result'' [plain ''Angle'', plain ''DomainError'']]\<rparr>),
     (Some ''Complex'', JStr ''arccos'',
        Some \<lparr>params = [plain ''Complex''], returns = [plain ''Complex'']\<rparr>),
     (Some ''Real'', JStr ''arccosh'',
        Some \<lparr>params = [plain ''Real''],
                returns = [Ty ''Result'' [plain ''Angle'', plain ''DomainError'']]\<rparr>),
     (Some ''Complex'', JStr ''arccosh'',
        Some \<lparr>params = [plain ''Complex''], returns = [plain ''Complex'']\<rparr>),
     (Some ''Real'', JStr ''arcsin'',
        Some \<lparr>params = [plain ''Real''],
                returns = [Ty ''Result'' [plain ''Angle'', plain ''DomainError'']]\<rparr>),
     (Some ''Complex'', JStr ''arcsin'',
        Some \<lparr>params = [plain ''Complex''], returns = [plain ''Complex'']\<rparr>),
     (Some ''Real'', JStr ''arcsinh'',
        Some \<lparr>params = [plain ''Real''], returns = [plain ''Angle'']\<rparr>),
     (Some ''Complex'', JStr ''arcsinh'',
        Some \<lparr>params = [plain ''Complex''], returns = [plain ''Complex'']\<rparr>),
     (Some ''Real'', JStr ''arctan'',
        Some \<lparr>params = [plain ''Real''], returns = [plain ''Angle'']\<rparr>),
     (Some ''Complex'', JStr ''arctan'',
        Some \<lparr>params = [plain ''Complex''], returns = [plain ''Complex'']\<rparr>),
     (Some ''Real'', JStr ''arctanh'',
        Some \<lparr>params = [plain ''Real''],
                returns = [Ty ''Result'' [plain ''Angle'', plain ''DomainError'']]\<rparr>),
     (Some ''Complex'', JStr ''arctanh'',
        Some \<lparr>params = [plain ''Complex''], returns = [plain ''Complex'']\<rparr>),
     (Some ''Complex'', JStr ''azimuthal'',
        Some \<lparr>params = [plain ''Complex''], returns = [plain ''Angle'']\<rparr>),
     (Some ''Angle'', JStr ''borrow'', Some \<lparr>params = [], returns = []\<rparr>),
     (Some ''DomainError'', JStr ''borrow'', Some \<lparr>params = [], returns = []\<rparr>),
     (Some ''ConversionError'', JStr ''borrow'', Some \<lparr>params = [], returns = []\<rparr>),
     (Some ''Real'', JStr ''borrow'', Some \<lparr>params = [], returns = []\<rparr>),
     (Some ''Complex'', JStr ''borrow'', Some \<lparr>params = [], returns = []\<rparr>),
     (Some ''Angle'', JStr ''borrow_mut'', Some \<lparr>params = [], returns = []\<rparr>),
     (Some ''DomainError'', JStr ''borrow_mut'', Some \<lparr>params = [], returns = []\<rparr>),
     (Some ''ConversionError'', JStr ''borrow_mut'',
        Some \<lparr>params = [], returns = []\<rparr>),
     (Some ''Real'', JStr ''borrow_mut'', Some \<lparr>params = [], returns = []\<rparr>),
     (Some ''Complex'', JStr ''borrow_mut'', Some \<lparr>params = [], returns = []\<rparr>),
     (Some ''Real'', JStr ''ceil'',
        Some \<lparr>params = [plain ''Real''], returns = [plain ''Real'']\<rparr>),
     (Some ''DomainError'', JStr ''clone'',
        Some \<lparr>params = [plain ''DomainError''], returns = [plain ''DomainError'']\<rparr>),
     (Some ''ConversionError'', JStr ''clone'',
        Some \<lparr>params = [plain ''ConversionError''],
                returns = [plain ''ConversionError'']\<rparr>),
     (Some ''Real'', JStr ''clone'',
        Some \<lparr>params = [plain ''Real''], returns = [plain ''Real'']\<rparr>),
     (Some ''Complex'', JStr ''clone'',
        Some \<lparr>params = [plain ''Complex''], returns = [plain ''Complex'']\<rparr>),
     (Some ''DomainError'', JStr ''clone_into'', Some \<lparr>params = [], returns = []\<rparr>),
     (Some ''ConversionError'', JStr ''clone_into'',
        Some \<lparr>params = [], returns = []\<rparr>),
     (Some ''Real'', JStr ''clone_into'', Some \<lparr>params = [], returns = []\<rparr>),
     (Some ''Complex'', JStr ''clone_into'', Some \<lparr>params = [], returns = []\<rparr>),
     (Some ''Real'', JStr ''cmp'',
        Some \<lparr>params = [plain ''Real'', plain ''Real''],
                returns = [plain ''Ordering'']\<rparr>),
     (Some ''Real'', JStr ''cos'',
        Some \<lparr>params = [plain ''Real''], returns = [plain ''Real'']\<rparr>),
     (Some ''Complex'', JStr ''cos'',
        Some \<lparr>params = [plain ''Complex''], returns = [plain ''Complex'']\<rparr>),
     (Some ''Real'', JStr ''cosh'',
        Some \<lparr>params = [plain ''Real''], returns = [plain ''Real'']\<rparr>),
     (Some ''Complex'', JStr ''cosh'',
        Some \<lparr>params = [plain ''Complex''], returns = [plain ''Complex'']\<rparr>),
     (Some ''Real'', JStr ''div'',
        Some \<lparr>params = [plain ''Real'', plain ''Real''],
                returns = [plain ''Real'']\<rparr>),
     (Some ''Complex'', JStr ''div'',
        Some \<lparr>params = [plain ''Complex'', plain ''Complex''],
                returns = [plain ''Complex'']\<rparr>),
     (Some ''Real'', JStr ''eq'',
        Some \<lparr>params = [plain ''Real'', plain ''Real''],
                returns = [plain ''bool'']\<rparr>),
     (Some ''Complex'', JStr ''eq'',
        Some \<lparr>params = [plain ''Complex'', plain ''Complex''],
                returns = [plain ''bool'']\<rparr>),
     (Some ''Real'', JStr ''exp'',
        Some \<lparr>params = [plain ''Real''], returns = [plain ''Real'']\<rparr>),
     (Some ''Complex'', JStr ''exp'',
        Some \<lparr>params = [plain ''Complex''], returns = [plain ''Complex'']\<rparr>),
     (Some ''Real'', JStr ''floor'',
        Some \<lparr>params = [plain ''Real''], returns = [plain ''Real'']\<rparr>),
     (Some ''DomainError'', JStr ''fmt'',
        Some \<lparr>params = [plain ''DomainError'', plain ''Formatter''],
                returns = [plain ''Result'']\<rparr>),
     (Some ''DomainError'', JStr ''fmt'',
        Some \<lparr>params = [plain ''DomainError'', plain ''Formatter''],
                returns = [plain ''Result'']\<rparr>),
     (Some ''ConversionError'', JStr ''fmt'',
        Some \<lparr>params = [plain ''ConversionError'', plain ''Formatter''],
                returns = [plain ''Result'']\<rparr>),
     (Some ''ConversionError'', JStr ''fmt'',
        Some \<lparr>params = [plain ''ConversionError'', plain ''Formatter''],
                returns = [plain ''Result'']\<rparr>),
     (Some ''Real'', JStr ''fmt'',
        Some \<lparr>params = [plain ''Real'', plain ''Formatter''],
                returns = [plain ''Result'']\<rparr>),
     (Some ''Real'', JStr ''fmt'',
        Some \<lparr>params = [plain ''Real'', plain ''Formatter''],
                returns = [plain ''Result'']\<rparr>),
     (Some ''Complex'', JStr ''fmt'',
        Some \<lparr>params = [plain ''Complex'', plain ''Formatter''],
                returns = [plain ''Result'']\<rparr>),
     (Some ''Complex'', JStr ''fmt'',
        Some \<lparr>params = [plain ''Complex'', plain ''Formatter''],
                returns = [plain ''Result'']\<rparr>),
     (Some ''Angle'', JStr ''from'', Some \<lparr>params = [], returns = []\<rparr>),
     (Some ''DomainError'', JStr ''from'', Some \<lparr>params = [], returns = []\<rparr>),
     (Some ''ConversionError'', JStr ''from'', Some \<lparr>params = [], returns = []\<rparr>),
     (Some ''Real'', JStr ''from'',
        Some \<lparr>params = [plain ''i32''], returns = [plain ''Real'']\<rparr>),
     (Some ''Real'', JStr ''from'',
        Some \<lparr>params = [plain ''i64''], returns = [plain ''Real'']\<rparr>),
     (Some ''Real'', JStr ''from'',
        Some \<lparr>params = [plain ''u16''], returns = [plain ''Real'']\<rparr>),
     (Some ''Real'', JStr ''from'',
        Some \<lparr>params = [plain ''f32''], returns = [plain ''Real'']\<rparr>),
     (Some ''Real'', JStr ''from'',
        Some \<lparr>params = [plain ''u64''], returns = [plain ''Real'']\<rparr>),
     (Some ''Real'', JStr ''from'',
        Some \<lparr>params = [plain ''u8''], returns = [plain ''Real'']\<rparr>),
     (Some ''Real'', JStr ''from'',
        Some \<lparr>params = [plain ''i8''], returns = [plain ''Real'']\<rparr>),
     (Some ''Real'', JStr ''from'',
        Some \<lparr>params = [plain ''f64''], returns = [plain ''Real'']\<rparr>),
     (Some ''Real'', JStr ''from'',
        Some \<lparr>params = [plain ''u32''], returns = [plain ''Real'']\<rparr>),
     (Some ''Real'', JStr ''from'',
        Some \<lparr>params = [plain ''i16''], returns = [plain ''Real'']\<rparr>),
     (Some ''Real'', JStr ''from'', Some \<lparr>params = [], returns = []\<rparr>),
     (Some ''Complex'', JStr ''from'', Some \<lparr>params = [], returns = []\<rparr>),
     (Some ''Angle'', JStr ''from_degrees'',
        Some \<lparr>params = [plain ''f64''], returns = [plain ''Angle'']\<rparr>),
     (Some ''Angle'', JStr ''from_radians'',
        Some \<lparr>params = [plain ''f64''], returns = [plain ''Angle'']\<rparr>),
     (Some ''Angle'', JStr ''into'', Some \<lparr>params = [], returns = []\<rparr>),
     (Some ''DomainError'', JStr ''into'', Some \<lparr>params = [], returns = []\<rparr>),
     (Some ''ConversionError'', JStr ''into'', Some \<lparr>params = [], returns = []\<rparr>),
     (Some ''Real'', JStr ''into'', Some \<lparr>params = [], returns = []\<rparr>),
     (Some ''Complex'', JStr ''into'', Some \<lparr>params = [], returns = []\<rparr>),
     (Some ''Angle'', JStr ''into_degrees'',
        Some \<lparr>params = [plain ''f64''], returns = [plain ''f64'']\<rparr>),
     (Some ''Angle'', JStr ''into_radians'',
        Some \<lparr>params = [plain ''f64''], returns = [plain ''f64'']\<rparr>),
     (Some ''Complex'', JStr ''is_imaginary'',
        Some \<lparr>params = [plain ''Complex''], returns = [plain ''bool'']\<rparr>),
     (Some ''Complex'', JStr ''is_real'',
        Some \<lparr>params = [plain ''Complex''], returns = [plain ''bool'']\<rparr>),
     (Some ''Real'', JStr ''ln'',
        Some \<lparr>params = [plain ''Real''],
                returns = [Ty ''Result'' [plain ''Real'', plain ''DomainError'']]\<rparr>),
     (Some ''Complex'', JStr ''ln'',
        Some \<lparr>params = [plain ''Complex''], returns = [plain ''Complex'']\<rparr>),
     (Some ''Real'', JStr ''log'',
        Some \<lparr>params = [plain ''Real'', plain ''Real''],
                returns = [Ty ''Result'' [plain ''Real'', plain ''DomainError'']]\<rparr>),
     (Some ''Real'', JStr ''logf'',
        Some \<lparr>params = [plain ''Real'', plain ''f64''],
                returns = [Ty ''Result'' [plain ''Real'', plain ''DomainError'']]\<rparr>),
     (Some ''Real'', JStr ''logi'',
        Some \<lparr>params = [plain ''Real'', plain ''i64''],
                returns = [Ty ''Result'' [plain ''Real'', plain ''DomainError'']]\<rparr>),
     (Some ''Real'', JStr ''mul'',
        Some \<lparr>params = [plain ''Real'', plain ''Real''],
                returns = [plain ''Real'']\<rparr>),
     (Some ''Complex'', JStr ''mul'',
        Some \<lparr>params = [plain ''Complex'', plain ''Complex''],
                returns = [plain ''Complex'']\<rparr>),
     (Some ''Real'', JStr ''neg'',
        Some \<lparr>params = [plain ''Real''], returns = [plain ''Real'']\<rparr>),
     (Some ''Complex'', JStr ''neg'',
        Some \<lparr>params = [plain ''Complex''], returns = [plain ''Complex'']\<rparr>),
     (Some ''Real'', JStr ''negative'',
        Some \<lparr>params = [plain ''Real''], returns = [plain ''bool'']\<rparr>),
     (Some ''Real'', JStr ''new'',
        Some \<lparr>params = [plain ''f64''], returns = [plain ''Real'']\<rparr>),
     (Some ''Complex'', JStr ''new'',
        Some \<lparr>params = [plain ''f64'', plain ''f64''],
                returns = [plain ''Complex'']\<rparr>),
     (Some ''Complex'', JStr ''norm'',
        Some \<lparr>params = [plain ''Complex''], returns = [plain ''Real'']\<rparr>),
     (Some ''Real'', JStr ''partial_cmp'',
        Some \<lparr>params = [plain ''Real'', plain ''Real''],
                returns = [Ty ''Option'' [plain ''Ordering'']]\<rparr>),
     (Some ''Real'', JStr ''positive'',
        Some \<lparr>params = [plain ''Real''], returns = [plain ''bool'']\<rparr>),
     (Some ''Real'', JStr ''pow'',
        Some \<lparr>params = [plain ''Real'', plain ''Real''],
                returns = [plain ''Real'']\<rparr>),
     (Some ''Real'', JStr ''powf'',
        Some \<lparr>params = [plain ''Real'', plain ''f64''],
                returns = [Ty ''Result'' [plain ''Real'', plain ''DomainError'']]\<rparr>),
     (Some ''Real'', JStr ''powi'',
        Some \<lparr>params = [plain ''Real'', plain ''i64''],
                returns = [plain ''Real'']\<rparr>),
     (Some ''Real'', JStr ''sin'',
        Some \<lparr>params = [plain ''Real''], returns = [plain ''Real'']\<rparr>),
     (Some ''Complex'', JStr ''sin'',
        Some \<lparr>params = [plain ''Complex''], returns = [plain ''Complex'']\<rparr>),
     (Some ''Real'', JStr ''sinh'',
        Some \<lparr>params = [plain ''Real''], returns = [plain ''Real'']\<rparr>),
     (Some ''Complex'', JStr ''sinh'',
        Some \<lparr>params = [plain ''Complex''], returns = [plain ''Complex'']\<rparr>),
     (Some ''Real'', JStr ''sqrt'',
        Some \<lparr>params = [plain ''Real''],
                returns = [Ty ''Result'' [plain ''Real'', plain ''DomainError'']]\<rparr>),
     (Some ''Complex'', JStr ''sqrt'',
        Some \<lparr>params = [plain ''Complex''], returns = [plain ''Complex'']\<rparr>),
     (Some ''Real'', JStr ''squared'',
        Some \<lparr>params = [plain ''Real''], returns = [plain ''Real'']\<rparr>),
     (Some ''Complex'', JStr ''squared'',
        Some \<lparr>params = [plain ''Complex''], returns = [plain ''Complex'']\<rparr>),
     (Some ''Real'', JStr ''sub'',
        Some \<lparr>params = [plain ''Real'', plain ''Real''],
                returns = [plain ''Real'']\<rparr>),
     (Some ''Complex'', JStr ''sub'',
        Some \<lparr>params = [plain ''Complex'', plain ''Complex''],
                returns = [plain ''Complex'']\<rparr>),
     (Some ''Real'', JStr ''tan'',
        Some \<lparr>params = [plain ''Real''], returns = [plain ''Real'']\<rparr>),
     (Some ''Complex'', JStr ''tan'',
        Some \<lparr>params = [plain ''Complex''], returns = [plain ''Complex'']\<rparr>),
     (Some ''Real'', JStr ''tanh'',
        Some \<lparr>params = [plain ''Real''], returns = [plain ''Real'']\<rparr>),
     (Some ''Complex'', JStr ''tanh'',
        Some \<lparr>params = [plain ''Complex''], returns = [plain ''Complex'']\<rparr>),
     (Some ''Real'', JStr ''to_complex'',
        Some \<lparr>params = [plain ''Real''], returns = [plain ''Complex'']\<rparr>),
     (Some ''Angle'', JStr ''to_degrees'',
        Some \<lparr>params = [plain ''Angle''], returns = [plain ''f64'']\<rparr>),
     (Some ''DomainError'', JStr ''to_owned'', Some \<lparr>params = [], returns = []\<rparr>),
     (Some ''ConversionError'', JStr ''to_owned'',
        Some \<lparr>params = [], returns = []\<rparr>),
     (Some ''Real'', JStr ''to_owned'', Some \<lparr>params = [], returns = []\<rparr>),
     (Some ''Complex'', JStr ''to_owned'', Some \<lparr>params = [], returns = []\<rparr>),
     (Some ''Angle'', JStr ''to_radians'',
        Some \<lparr>params = [plain ''Angle''], returns = [plain ''f64'']\<rparr>),
     (Some ''DomainError'', JStr ''to_string'',
        Some \<lparr>params = [], returns = [plain ''String'']\<rparr>),
     (Some ''ConversionError'', JStr ''to_string'',
        Some \<lparr>params = [], returns = [plain ''String'']\<rparr>),
     (Some ''Real'', JStr ''to_string'',
        Some \<lparr>params = [], returns = [plain ''String'']\<rparr>),
     (Some ''Complex'', JStr ''to_string'',
        Some \<lparr>params = [], returns = [plain ''String'']\<rparr>),
     (Some ''Angle'', JStr ''try_from'',
        Some \<lparr>params = [], returns = [plain ''Result'']\<rparr>),
     (Some ''DomainError'', JStr ''try_from'',
        Some \<lparr>params = [], returns = [plain ''Result'']\<rparr>),
     (Some ''ConversionError'', JStr ''try_from'',
        Some \<lparr>params = [], returns = [plain ''Result'']\<rparr>),
     (Some ''Real'', JStr ''try_from'',
        Some \<lparr>params = [plain ''Complex''],
                returns = [Ty ''Result'' [plain ''Real'', plain ''ConversionError'']]\<rparr>),
     (Some ''Real'', JStr ''try_from'',
        Some \<lparr>params = [], returns = [plain ''Result'']\<rparr>),
     (Some ''Complex'', JStr ''try_from'',
        Some \<lparr>params = [], returns = [plain ''Result'']\<rparr>),
     (Some ''Angle'', JStr ''try_into'',
        Some \<lparr>params = [], returns = [plain ''Result'']\<rparr>),
     (Some ''DomainError'', JStr ''try_into'',
        Some \<lparr>params = [], returns = [plain ''Result'']\<rparr>),
     (Some ''ConversionError'', JStr ''try_into'',
        Some \<lparr>params = [], returns = [plain ''Result'']\<rparr>),
     (Some ''Real'', JStr ''try_into'',
        Some \<lparr>params = [], returns = [plain ''Result'']\<rparr>),
     (Some ''Complex'', JStr ''try_into'',
        Some \<lparr>params = [], returns = [plain ''Result'']\<rparr>),
     (Some ''Angle'', JStr ''type_id'',
        Some \<lparr>params = [], returns = [plain ''TypeId'']\<rparr>),
     (Some ''DomainError'', JStr ''type_id'',
        Some \<lparr>params = [], returns = [plain ''TypeId'']\<rparr>),
     (Some ''ConversionError'', JStr ''type_id'',
        Some \<lparr>params = [], returns = [plain ''TypeId'']\<rparr>),
     (Some ''Real'', JStr ''type_id'',
        Some \<lparr>params = [], returns = [plain ''TypeId'']\<rparr>),
     (Some ''Complex'', JStr ''type_id'',
        Some \<lparr>params = [], returns = [plain ''TypeId'']\<rparr>),
     (Some ''Real'', JStr ''value'',
        Some \<lparr>params = [plain ''Real''], returns = [plain ''f64'']\<rparr>)
]"
  by (simp add: rows_def items_def column_t column_n column_d column_i column_f
      hebrides_t_def hebrides_n_def hebrides_d_def hebrides_i_def hebrides_f_def type_names)

lemma sigs_of_rows:
  "sigs_of P nm =
     map (\<lambda>(p, n, s). s) (filter (\<lambda>(p, n, s). p = Some P \<and> n = JStr nm) rows)"
  by (simp add: sigs_of_def rows_def filter_map comp_def)

lemma column_lengths:
  "length (column ''t'') = 152"
  "length (column ''n'') = 152"
  "length (column ''d'') = 152"
  "length (column ''i'') = 152"
  "length (column ''f'') = 152"
  unfolding column_t column_n column_d column_i column_f
  by (simp_all add: hebrides_t_def hebrides_n_def hebrides_d_def hebrides_i_def hebrides_f_def)

text \<open>The columns are parallel, so pairing them up loses no item.\<close>

lemma length_items: "length items = 152"
  by (simp add: items_def column_lengths)

lemma with_error_rows:
  "with_error E = filter (\<lambda>(p, n, s). error_component s = Some E) rows"
  by (simp add: with_error_def rows_def filter_map comp_def)

lemma returning_rows:
  "returning P T =
     map (\<lambda>(p, n, s). n)
       (filter (\<lambda>(p, n, s). p = Some P \<and> map_option returns s = Some [T]) rows)"
  by (simp add: returning_def rows_def filter_map comp_def)

lemma converting_rows:
  "converting A B =
     map (\<lambda>(p, n, s). (p, n)) (filter (\<lambda>(p, n, s). takes A s \<and> gives B s) rows)"
  by (simp add: converting_def rows_def filter_map comp_def)

lemma giving_rows:
  "giving P B = map (\<lambda>(p, n, s). n) (filter (\<lambda>(p, n, s). p = Some P \<and> gives B s) rows)"
  by (simp add: giving_def rows_def filter_map comp_def)

text \<open>
  A filter over the table is evaluated row by row; the rows still to come are left alone.
\<close>

lemma filter_weak_cong: "P = Q \<Longrightarrow> filter P xs = filter Q xs"
  by simp

section \<open>Error signalling in the recorded signatures\<close>

text \<open>
  C1, as stated: each of arcsin, arccos, arctan, arcsinh, arccosh and arctanh on Real is
  recorded with a signature returning a \<^verbatim>\<open>Result\<close> whose error component is
  \<^verbatim>\<open>DomainError\<close>. The index records arctan on Real as
  \<^verbatim>\<open>Real -> Angle\<close>, with no error component.
\<close>

theorem arctan_not_fallible:
  "sigs_of ''Real'' ''arctan'' =
     [Some \<lparr>params = [plain ''Real''], returns = [plain ''Angle'']\<rparr>]
   \<and> \<not> fallible_with ''Real'' ''arctan'' ''DomainError''"
  unfolding fallible_with_def sigs_of_rows rows_eq
  by (simp cong: filter_weak_cong)

text \<open>
  C1, amended: of the inverse trigonometric operations on Real, arcsin, arccos, arccosh and
  arctanh are each recorded once, with signature
  \<^verbatim>\<open>Real -> Result<Angle, DomainError>\<close>; arctan and arcsinh are each recorded
  once as total, with signature \<^verbatim>\<open>Real -> Angle\<close>.
\<close>

theorem inverse_trig_signatures:
  "sigs_of ''Real'' ''arcsin'' =
     [Some \<lparr>params = [plain ''Real''],
            returns = [Ty ''Result'' [plain ''Angle'', plain ''DomainError'']]\<rparr>]
   \<and> sigs_of ''Real'' ''arccos'' =
     [Some \<lparr>params = [plain ''Real''],
            returns = [Ty ''Result'' [plain ''Angle'', plain ''DomainError'']]\<rparr>]
   \<and> sigs_of ''Real'' ''arccosh'' =
     [Some \<lparr>params = [plain ''Real''],
            returns = [Ty ''Result'' [plain ''Angle'', plain ''DomainError'']]\<rparr>]
   \<and> sigs_of ''Real'' ''arctanh'' =
     [Some \<lparr>params = [plain ''Real''],
            returns = [Ty ''Result'' [plain ''Angle'', plain ''DomainError'']]\<rparr>]
   \<and> fallible_with ''Real'' ''arcsin'' ''DomainError''
   \<and> fallible_with ''Real'' ''arccos'' ''DomainError''
   \<and> fallible_with ''Real'' ''arccosh'' ''DomainError''
   \<and> fallible_with ''Real'' ''arctanh'' ''DomainError''
   \<and> sigs_of ''Real'' ''arctan'' =
     [Some \<lparr>params = [plain ''Real''], returns = [plain ''Angle'']\<rparr>]
   \<and> sigs_of ''Real'' ''arcsinh'' =
     [Some \<lparr>params = [plain ''Real''], returns = [plain ''Angle'']\<rparr>]"
  unfolding fallible_with_def sigs_of_rows rows_eq
  by (simp cong: filter_weak_cong)

text \<open>
  C2: each of the logarithms ln, log, logf and logi on Real is recorded once, with a
  signature that returns \<^verbatim>\<open>Result<Real, DomainError>\<close>: its error component is
  \<^verbatim>\<open>DomainError\<close>.
\<close>

theorem logarithm_signatures:
  "sigs_of ''Real'' ''ln'' =
     [Some \<lparr>params = [plain ''Real''],
            returns = [Ty ''Result'' [plain ''Real'', plain ''DomainError'']]\<rparr>]
   \<and> sigs_of ''Real'' ''log'' =
     [Some \<lparr>params = [plain ''Real'', plain ''Real''],
            returns = [Ty ''Result'' [plain ''Real'', plain ''DomainError'']]\<rparr>]
   \<and> sigs_of ''Real'' ''logf'' =
     [Some \<lparr>params = [plain ''Real'', plain ''f64''],
            returns = [Ty ''Result'' [plain ''Real'', plain ''DomainError'']]\<rparr>]
   \<and> sigs_of ''Real'' ''logi'' =
     [Some \<lparr>params = [plain ''Real'', plain ''i64''],
            returns = [Ty ''Result'' [plain ''Real'', plain ''DomainError'']]\<rparr>]
   \<and> fallible_with ''Real'' ''ln'' ''DomainError''
   \<and> fallible_with ''Real'' ''log'' ''DomainError''
   \<and> fallible_with ''Real'' ''logf'' ''DomainError''
   \<and> fallible_with ''Real'' ''logi'' ''DomainError''"
  unfolding fallible_with_def sigs_of_rows rows_eq
  by (simp cong: filter_weak_cong)

text \<open>
  C10: \<^verbatim>\<open>ConversionError\<close> is the error component of exactly one recorded
  signature, that of \<^verbatim>\<open>try_from\<close> on Real,
  \<^verbatim>\<open>Complex -> Result<Real, ConversionError>\<close>; div, pow and powi on Real are
  recorded as returning \<^verbatim>\<open>Real\<close>, with no error component.
\<close>

theorem conversion_error_once:
  "with_error ''ConversionError'' =
     [(Some ''Real'', JStr ''try_from'',
       Some \<lparr>params = [plain ''Complex''],
              returns = [Ty ''Result'' [plain ''Real'', plain ''ConversionError'']]\<rparr>)]
   \<and> sigs_of ''Real'' ''div'' =
     [Some \<lparr>params = [plain ''Real'', plain ''Real''], returns = [plain ''Real'']\<rparr>]
   \<and> sigs_of ''Real'' ''pow'' =
     [Some \<lparr>params = [plain ''Real'', plain ''Real''], returns = [plain ''Real'']\<rparr>]
   \<and> sigs_of ''Real'' ''powi'' =
     [Some \<lparr>params = [plain ''Real'', plain ''i64''], returns = [plain ''Real'']\<rparr>]
   \<and> map error_component (sigs_of ''Real'' ''div'') = [None]
   \<and> map error_component (sigs_of ''Real'' ''pow'') = [None]
   \<and> map error_component (sigs_of ''Real'' ''powi'') = [None]"
  unfolding with_error_rows sigs_of_rows rows_eq
  by (simp cong: filter_weak_cong)

section \<open>The recorded interfaces of Real, Complex and Angle\<close>

text \<open>
  C3, as stated: no comparison returning \<^verbatim>\<open>Ordering\<close> directly is recorded for
  Real. The index records \<^verbatim>\<open>cmp\<close> on Real with signature
  \<^verbatim>\<open>(Real, Real) -> Ordering\<close>.
\<close>

theorem total_cmp_recorded:
  "sigs_of ''Real'' ''cmp'' =
     [Some \<lparr>params = [plain ''Real'', plain ''Real''], returns = [plain ''Ordering'']\<rparr>]
   \<and> returning ''Real'' (plain ''Ordering'') \<noteq> []"
  unfolding returning_rows sigs_of_rows rows_eq
  by (simp cong: filter_weak_cong)

text \<open>
  C3, amended: the index records two comparisons for Real: \<^verbatim>\<open>partial_cmp\<close> with
  signature \<^verbatim>\<open>(Real, Real) -> Option<Ordering>\<close>, and the total comparison
  \<^verbatim>\<open>cmp\<close> with signature \<^verbatim>\<open>(Real, Real) -> Ordering\<close>, which is the only
  operation on Real returning \<^verbatim>\<open>Ordering\<close> directly.
\<close>

theorem real_comparisons:
  "sigs_of ''Real'' ''partial_cmp'' =
     [Some \<lparr>params = [plain ''Real'', plain ''Real''],
            returns = [Ty ''Option'' [plain ''Ordering'']]\<rparr>]
   \<and> sigs_of ''Real'' ''cmp'' =
     [Some \<lparr>params = [plain ''Real'', plain ''Real''], returns = [plain ''Ordering'']\<rparr>]
   \<and> returning ''Real'' (plain ''Ordering'') = [JStr ''cmp'']
   \<and> giving ''Real'' ''Ordering'' = [JStr ''cmp'', JStr ''partial_cmp'']"
  unfolding returning_rows giving_rows sigs_of_rows rows_eq
  by (simp cong: filter_weak_cong)

text \<open>
  C4, as stated: some operation on Angle returns a Complex. No item with parent Angle
  returns a type named \<^verbatim>\<open>Complex\<close>, and no item of the index takes an
  \<^verbatim>\<open>Angle\<close> and returns a \<^verbatim>\<open>Complex\<close>.
\<close>

theorem no_angle_to_complex:
  "giving ''Angle'' ''Complex'' = [] \<and> converting ''Angle'' ''Complex'' = []"
  unfolding giving_rows converting_rows rows_eq
  by (simp cong: filter_weak_cong)

text \<open>
  C4, amended: the index records one conversion from Complex to Angle,
  \<^verbatim>\<open>azimuthal\<close> on Complex with signature \<^verbatim>\<open>Complex -> Angle\<close>; the
  operation \<^verbatim>\<open>to_complex\<close> is recorded on Real, with signature
  \<^verbatim>\<open>Real -> Complex\<close>, and no operation on Angle, or taking an Angle, returns a
  Complex.
\<close>

theorem angle_complex_conversions:
  "converting ''Complex'' ''Angle'' = [(Some ''Complex'', JStr ''azimuthal'')]
   \<and> sigs_of ''Complex'' ''azimuthal'' =
     [Some \<lparr>params = [plain ''Complex''], returns = [plain ''Angle'']\<rparr>]
   \<and> sigs_of ''Real'' ''to_complex'' =
     [Some \<lparr>params = [plain ''Real''], returns = [plain ''Complex'']\<rparr>]
   \<and> sigs_of ''Angle'' ''to_complex'' = []
   \<and> giving ''Angle'' ''Complex'' = []
   \<and> converting ''Angle'' ''Complex'' = []"
  unfolding giving_rows converting_rows sigs_of_rows rows_eq
  by (simp cong: filter_weak_cong)

text \<open>
  C5: the index records \<^verbatim>\<open>new\<close> on Complex with signature
  \<^verbatim>\<open>(f64, f64) -> Complex\<close> and \<^verbatim>\<open>eq\<close> on Complex with signature
  \<^verbatim>\<open>(Complex, Complex) -> bool\<close>.
\<close>

theorem complex_new_eq:
  "sigs_of ''Complex'' ''new'' =
     [Some \<lparr>params = [plain ''f64'', plain ''f64''], returns = [plain ''Complex'']\<rparr>]
   \<and> sigs_of ''Complex'' ''eq'' =
     [Some \<lparr>params = [plain ''Complex'', plain ''Complex''], returns = [plain ''bool'']\<rparr>]"
  unfolding sigs_of_rows rows_eq
  by (simp cong: filter_weak_cong)

text \<open>
  C6: the index records, on Angle, \<^verbatim>\<open>from_degrees\<close> and \<^verbatim>\<open>from_radians\<close>
  with signature \<^verbatim>\<open>f64 -> Angle\<close>, and \<^verbatim>\<open>to_degrees\<close> and
  \<^verbatim>\<open>to_radians\<close> with signature \<^verbatim>\<open>Angle -> f64\<close>.
\<close>

theorem angle_conversions:
  "sigs_of ''Angle'' ''from_degrees'' =
     [Some \<lparr>params = [plain ''f64''], returns = [plain ''Angle'']\<rparr>]
   \<and> sigs_of ''Angle'' ''from_radians'' =
     [Some \<lparr>params = [plain ''f64''], returns = [plain ''Angle'']\<rparr>]
   \<and> sigs_of ''Angle'' ''to_degrees'' =
     [Some \<lparr>params = [plain ''Angle''], returns = [plain ''f64'']\<rparr>]
   \<and> sigs_of ''Angle'' ''to_radians'' =
     [Some \<lparr>params = [plain ''Angle''], returns = [plain ''f64'']\<rparr>]"
  unfolding sigs_of_rows rows_eq
  by (simp cong: filter_weak_cong)

text \<open>
  C7: with Real as parent the index records add, sub, mul and div with signature
  \<^verbatim>\<open>(Real, Real) -> Real\<close>, positive and negative with signature
  \<^verbatim>\<open>Real -> bool\<close>, floor, ceil, sin, cos, tan, sinh, cosh, tanh and exp with
  signature \<^verbatim>\<open>Real -> Real\<close>, and value with signature \<^verbatim>\<open>Real -> f64\<close>.
\<close>

theorem real_operations:
  "sigs_of ''Real'' ''add'' =
     [Some \<lparr>params = [plain ''Real'', plain ''Real''], returns = [plain ''Real'']\<rparr>]
   \<and> sigs_of ''Real'' ''sub'' =
     [Some \<lparr>params = [plain ''Real'', plain ''Real''], returns = [plain ''Real'']\<rparr>]
   \<and> sigs_of ''Real'' ''mul'' =
     [Some \<lparr>params = [plain ''Real'', plain ''Real''], returns = [plain ''Real'']\<rparr>]
   \<and> sigs_of ''Real'' ''div'' =
     [Some \<lparr>params = [plain ''Real'', plain ''Real''], returns = [plain ''Real'']\<rparr>]
   \<and> sigs_of ''Real'' ''positive'' =
     [Some \<lparr>params = [plain ''Real''], returns = [plain ''bool'']\<rparr>]
   \<and> sigs_of ''Real'' ''negative'' =
     [Some \<lparr>params = [plain ''Real''], returns = [plain ''bool'']\<rparr>]
   \<and> sigs_of ''Real'' ''floor'' =
     [Some \<lparr>params = [plain ''Real''], returns = [plain ''Real'']\<rparr>]
   \<and> sigs_of ''Real'' ''ceil'' =
     [Some \<lparr>params = [plain ''Real''], returns = [plain ''Real'']\<rparr>]
   \<and> sigs_of ''Real'' ''sin'' =
     [Some \<lparr>params = [plain ''Real''], returns = [plain ''Real'']\<rparr>]
   \<and> sigs_of ''Real'' ''cos'' =
     [Some \<lparr>params = [plain ''Real''], returns = [plain ''Real'']\<rparr>]
   \<and> sigs_of ''Real'' ''tan'' =
     [Some \<lparr>params = [plain ''Real''], returns = [plain ''Real'']\<rparr>]
   \<and> sigs_of ''Real'' ''sinh'' =
     [Some \<lparr>params = [plain ''Real''], returns = [plain ''Real'']\<rparr>]
   \<and> sigs_of ''Real'' ''cosh'' =
     [Some \<lparr>params = [plain ''Real''], returns = [plain ''Real'']\<rparr>]
   \<and> sigs_of ''Real'' ''tanh'' =
     [Some \<lparr>params = [plain ''Real''], returns = [plain ''Real'']\<rparr>]
   \<and> sigs_of ''Real'' ''exp'' =
     [Some \<lparr>params = [plain ''Real''], returns = [plain ''Real'']\<rparr>]
   \<and> sigs_of ''Real'' ''value'' =
     [Some \<lparr>params = [plain ''Real''], returns = [plain ''f64'']\<rparr>]"
  unfolding sigs_of_rows rows_eq
  by (simp cong: filter_weak_cong)

section \<open>The shape of the parsed value\<close>

text \<open>
  C8: the parsed value is an object with the single key \<^verbatim>\<open>hebrides\<close>; the object
  under that key holds arrays under the keys t (item kinds, numbers), n (item names,
  strings), d (docstrings, strings), i (parent-type indices, numbers), f (signature
  entries, each the number 0 or an array) and p (the type-name table, pairs of a number and
  a string). The lists t, n, d, i and f are parallel: they have the same length, one entry
  per item, so that pairing them up gives that many items. The object holds the keys doc
  and q as well.
\<close>

theorem search_index_shape:
  "keys searchIndex = [''hebrides'']
   \<and> crate_keys = [''doc'', ''t'', ''n'', ''q'', ''d'', ''i'', ''f'', ''p'']
   \<and> is_arr (crate_field ''t'') \<and> list_all is_num (column ''t'')
   \<and> is_arr (crate_field ''n'') \<and> list_all is_str (column ''n'')
   \<and> is_arr (crate_field ''d'') \<and> list_all is_str (column ''d'')
   \<and> is_arr (crate_field ''i'') \<and> list_all is_num (column ''i'')
   \<and> is_arr (crate_field ''f'') \<and> list_all is_sig_entry (column ''f'')
   \<and> is_arr (crate_field ''p'') \<and> list_all is_path (column ''p'')
   \<and> length (column ''n'') = length (column ''t'')
   \<and> length (column ''d'') = length (column ''t'')
   \<and> length (column ''i'') = length (column ''t'')
   \<and> length (column ''f'') = length (column ''t'')
   \<and> length items = length (column ''t'')"
proof -
  have shape:
    "keys searchIndex = [''hebrides'']
     \<and> crate_keys = [''doc'', ''t'', ''n'', ''q'', ''d'', ''i'', ''f'', ''p'']
     \<and> is_arr (crate_field ''t'') \<and> list_all is_num (column ''t'')
     \<and> is_arr (crate_field ''n'') \<and> list_all is_str (column ''n'')
     \<and> is_arr (crate_field ''d'') \<and> list_all is_str (column ''d'')
     \<and> is_arr (crate_field ''i'') \<and> list_all is_num (column ''i'')
     \<and> is_arr (crate_field ''f'') \<and> list_all is_sig_entry (column ''f'')
     \<and> is_arr (crate_field ''p'') \<and> list_all is_path (column ''p'')"
    unfolding column_t column_n column_d column_i column_f column_p crate_keys_def
      crate_field_def
    by (simp add: crate_def searchIndex_def hebrides_t_def hebrides_n_def hebrides_d_def
        hebrides_i_def hebrides_f_def hebrides_p_def)
  have parallel:
    "length (column ''n'') = length (column ''t'')"
    "length (column ''d'') = length (column ''t'')"
    "length (column ''i'') = length (column ''t'')"
    "length (column ''f'') = length (column ''t'')"
    "length items = length (column ''t'')"
    by (simp_all only: column_lengths length_items)
  from shape parallel show ?thesis
    by (simp only: simp_thms)
qed

text \<open>
  C9: the columns t, n, d, i and f all have length 152 and the type table p has length 23;
  every entry of i is 0 or a valid 1-based index into p; every type index in a signature
  entry of f is a valid 1-based index into p.
\<close>

theorem columns_well_formed:
  "length (column ''t'') = 152
   \<and> length (column ''n'') = 152
   \<and> length (column ''d'') = 152
   \<and> length (column ''i'') = 152
   \<and> length (column ''f'') = 152
   \<and> length (column ''p'') = 23
   \<and> list_all valid_parent (column ''i'')
   \<and> list_all valid_index (concat (map sig_indices (column ''f'')))"
proof -
  have parents: "list_all valid_parent (column ''i'')"
    unfolding column_i hebrides_i_def by (simp add: valid_index_def length_p)
  have "list_all (\<lambda>k. 1 \<le> k \<and> k \<le> 23) (concat (map sig_indices (column ''f'')))"
    unfolding column_f hebrides_f_def by (simp add: sig_indices_def)
  then have types: "list_all valid_index (concat (map sig_indices (column ''f'')))"
    unfolding valid_index_def length_p by simp
  from column_lengths length_p parents types show ?thesis
    by simp
qed

end
